theory Spec2Isabelle
  imports Main "HOL-Library.Word"
begin

section \<open>Parameter values (api/v1/registry.proto)\<close>

text \<open>
  The Go types of the parameter values are generated from \<^verbatim>\<open>registry.proto\<close> by the
  gogo protobuf compiler. A \<^verbatim>\<open>oneof\<close> becomes an interface field that is either nil or
  a pointer to a one-field wrapper struct; a member of message type is a pointer inside
  its wrapper and may be nil. Pointers that may be nil are \<open>option\<close>s here, \<open>None\<close> being nil.
\<close>

text \<open>\<^verbatim>\<open>float64\<close>: an IEEE-754 binary64 value, kept as its 64 bits.\<close>

type_synonym float64 = "64 word"

text \<open>
  \<^verbatim>\<open>time.Time\<close> of the Go standard library (the type of a
  \<^verbatim>\<open>google.protobuf.Timestamp\<close> field under \<^verbatim>\<open>gogoproto.stdtime\<close>): seconds and
  nanoseconds since the Unix epoch, and the name of the location the time is shown in.
\<close>

datatype Time = Time (unixSec: int) (nsec: nat) (location: string)

datatype ResourceRef = ResourceRef (ref_name: string) (ref_namespace: string)

datatype SecretRef = SecretRef (ref: "ResourceRef option") (key: string)

datatype isSecretValue_Type =
    SecretValue_SecretRef "SecretRef option"
  | SecretValue_FilePath string
  | SecretValue_PlainText string

datatype SecretValue = SecretValue (secret_type: "isSecretValue_Type option")

datatype isParameterValue_Type =
    ParameterValue_StringValue string
  | ParameterValue_IntValue "64 word"
  | ParameterValue_FloatValue float64
  | ParameterValue_BooleanValue bool
  | ParameterValue_DateValue "Time option"
  | ParameterValue_SecretValue "SecretValue option"

record ParameterValue =
  Type :: "isParameterValue_Type option"

text \<open>
  Modelled from the spec: the getter \<^verbatim>\<open>(*ParameterValue).GetType\<close> is generated into
  \<^verbatim>\<open>registry.pb.go\<close>, which is not among the sources. The specification has the
  parameter value as a closed variant; the getter reads which one is set, and as every
  getter the protobuf compiler generates it accepts a nil receiver and answers nil for it.
\<close>

definition GetType :: "ParameterValue option \<Rightarrow> isParameterValue_Type option" where
  "GetType m = (case m of None \<Rightarrow> None | Some v \<Rightarrow> Type v)"

section \<open>What the function takes from the Go runtime\<close>

text \<open>
  The width of Go's \<^verbatim>\<open>int\<close> depends on the platform the program is built for
  (\<^verbatim>\<open>strconv.IntSize\<close>, 32 or 64). \<^verbatim>\<open>(time.Time).String\<close> and the digits
  \<^verbatim>\<open>strconv\<close> writes for a float that is a number belong to the standard library and
  are parameters.
\<close>

record runtime =
  IntSize :: nat
  Time_String :: "Time \<Rightarrow> string"
  formatDigits :: "float64 \<Rightarrow> char \<Rightarrow> int \<Rightarrow> nat \<Rightarrow> string"

text \<open>
  \<^verbatim>\<open>strconv.FormatFloat\<close> at bit size 64 takes the value apart into sign, exponent and
  mantissa; an exponent of all ones is an infinity or not a number, written as a word.
  Every other value goes to the digit formatting.
\<close>

definition exponent :: "float64 \<Rightarrow> nat" where
  "exponent val = unat (take_bit 11 (drop_bit 52 val))"

definition mantissa :: "float64 \<Rightarrow> 64 word" where
  "mantissa val = take_bit 52 val"

definition negative :: "float64 \<Rightarrow> bool" where
  "negative val = (drop_bit 63 val \<noteq> 0)"

definition FormatFloat :: "runtime \<Rightarrow> float64 \<Rightarrow> char \<Rightarrow> int \<Rightarrow> nat \<Rightarrow> string" where
  "FormatFloat rt val fmt prec bitSize =
     (if bitSize = 64 \<and> exponent val = 2047
      then (if mantissa val \<noteq> 0 then ''NaN'' else if negative val then ''-Inf'' else ''+Inf'')
      else formatDigits rt val fmt prec bitSize)"

text \<open>The conversion \<^verbatim>\<open>int(x)\<close> of an \<^verbatim>\<open>int64\<close>: the low \<open>IntSize\<close> bits, read signed.\<close>

definition int_of_int64 :: "nat \<Rightarrow> 64 word \<Rightarrow> int" where
  "int_of_int64 n x = signed_take_bit (n - 1) (sint x)"

text \<open>
  \<^verbatim>\<open>strconv.Itoa\<close>: the digits of the magnitude in base 10, least significant last,
  after a minus sign when the number is negative. \<open>digit\<close> is only applied below 10.
\<close>

definition digits :: string where
  "digits = ''0123456789''"

definition digit :: "nat \<Rightarrow> char" where
  "digit d = digits ! d"

fun formatBits :: "nat \<Rightarrow> string" where
  "formatBits u = (if u < 10 then [digit u] else formatBits (u div 10) @ [digit (u mod 10)])"

declare formatBits.simps [simp del]

definition Itoa :: "int \<Rightarrow> string" where
  "Itoa i = (if i < 0 then CHR ''-'' # formatBits (nat (- i)) else formatBits (nat i))"

section \<open>pkg/render/util/params.go\<close>

datatype panic = NilPointerDereference

text \<open>
  The type switch of \<^verbatim>\<open>ParamValueToString\<close>, case by case in the order of the source.
  The only dereference is \<^verbatim>\<open>t.DateValue.String()\<close>: \<^verbatim>\<open>String\<close> has a value
  receiver, so Go loads \<^verbatim>\<open>*t.DateValue\<close> first and panics when the pointer is nil.
  The secret case returns before it looks at \<^verbatim>\<open>t\<close>.
\<close>

definition ParamValueToString :: "runtime \<Rightarrow> ParameterValue option \<Rightarrow> panic + string" where
  "ParamValueToString rt v =
     (case GetType v of
        Some (ParameterValue_BooleanValue b) \<Rightarrow>
          if b then Inr ''true'' else Inr ''false''
      | Some (ParameterValue_DateValue d) \<Rightarrow>
          (case d of
             None \<Rightarrow> Inl NilPointerDereference
           | Some t \<Rightarrow> Inr (Time_String rt t))
      | Some (ParameterValue_FloatValue f) \<Rightarrow>
          Inr (FormatFloat rt f (CHR ''f'') (- 1) 64)
      | Some (ParameterValue_IntValue i) \<Rightarrow>
          Inr (Itoa (int_of_int64 (IntSize rt) i))
      | Some (ParameterValue_SecretValue s) \<Rightarrow> Inr []
      | Some (ParameterValue_StringValue s) \<Rightarrow> Inr s
      | None \<Rightarrow> Inr [])"

text \<open>Two build platforms. Their library functions are left open: no proof below runs them.\<close>

definition linux_amd64 :: runtime where
  "linux_amd64 = \<lparr>IntSize = 64, Time_String = undefined, formatDigits = undefined\<rparr>"


section \<open>Reading decimal numerals\<close>


definition digit_val :: "char \<Rightarrow> nat option" where
  "digit_val c = map_of (zip digits [0 ..< 10]) c"

fun parse_digits :: "nat \<Rightarrow> string \<Rightarrow> nat option" where
  "parse_digits acc [] = Some acc"
| "parse_digits acc (c # cs) =
     (case digit_val c of None \<Rightarrow> None | Some d \<Rightarrow> parse_digits (10 * acc + d) cs)"



section \<open>Mesh requirements, install sources, flavors and layers (api/v1/registry.proto)\<close>

text \<open>
  The messages of \<^verbatim>\<open>registry.proto\<close> the engine reads. The enum constants carry the
  names the generated Go code gives them; fields that share a name across messages are
  told apart by a prefix. A requirement set is taken with its mesh requirement, as the
  data model of the specification has it (3); the range of versions may be absent, and
  then any version is allowed. The install specification of a version is one of the
  three single sources or a list of steps.
\<close>

datatype MeshType = MeshType_ISTIO | MeshType_LINKERD | MeshType_AWS_APP_MESH

record AllowedVersions =
  min_version :: string
  max_version :: string

record MeshRequirement =
  mesh_type :: MeshType
  versions :: "AllowedVersions option"

record RequirementSet =
  mesh_requirement :: MeshRequirement

datatype GithubRepositoryLocation = GithubRepositoryLocation string string string string

datatype TgzLocation = TgzLocation string

datatype InstallSource =
    GithubChart GithubRepositoryLocation
  | HelmArchive TgzLocation
  | ManifestsArchive TgzLocation

record Step =
  step_name :: string
  step :: "InstallSource option"

datatype InstallationSpec =
    SingleSource InstallSource
  | InstallationSteps "Step list"

record Secret =
  secret_name :: string
  keys :: "string list"

datatype ResourceDependency = SecretDependency Secret

datatype ParameterType =
    ParameterType_STRING
  | ParameterType_FLOAT
  | ParameterType_BOOL
  | ParameterType_INT
  | ParameterType_DATE
  | ParameterType_SECRET

record Parameter =
  parameter_name :: string
  parameter_description :: string
  parameter_type :: ParameterType
  parameter_default :: "ParameterValue option"
  required :: bool
  parameter_display_name :: string

record LayerOption =
  option_id :: string
  option_display_name :: string
  option_description :: string
  helm_values :: string
  option_parameters :: "Parameter list"
  resource_dependencies :: "ResourceDependency list"

record Layer =
  layer_id :: string
  layer_display_name :: string
  layer_description :: string
  optional :: bool
  options :: "LayerOption list"

record Flavor =
  flavor_name :: string
  flavor_description :: string
  customization_layers :: "Layer list"
  requirement_sets :: "RequirementSet list"
  flavor_parameters :: "Parameter list"

section \<open>The engine of the specification\<close>

text \<open>
  The render package (\<^verbatim>\<open>pkg/render\<close>), which the test calls through
  \<^verbatim>\<open>render.ComputeResourcesForApplication\<close>, is not among the sources. Its parts are
  modelled below from sections 4, 6 and 7 of the specification, each under the name the
  specification gives it. The error kinds are those of section 7.
\<close>

datatype render_error =
    VersionNotFound string
  | FlavorNotFound string
  | FlavorIncompatible string
  | LayerSelectionRequired string
  | MissingDependency string string string
  | MissingRequiredParameter string
  | SecretNotFound string string
  | SecretSourceUnavailable string
  | TemplatingFailed string string
  | NoInstallSourceDefined

text \<open>
  Modelled from the spec: the cluster query \<^verbatim>\<open>getSecret(namespace, name)\<close> of section
  6 gives the data map of the secret, or \<open>None\<close> when there is none.
\<close>

type_synonym cluster = "string \<Rightarrow> string \<Rightarrow> (string \<rightharpoonup> string) option"

subsection \<open>Secret Resolver (4.2)\<close>

text \<open>
  Modelled from the spec: the Secret Resolver (4.2) is not among the sources. A secret of
  the cluster is looked up by name in the target namespace only and its key is read from
  the data map, a file path is read whole, a plain text is returned as it is. The cluster
  and the file system are the two lookups it is given. An absent reference has the empty
  name and key, as the generated getters read it.
\<close>

definition secretName :: "SecretRef option \<Rightarrow> string" where
  "secretName r = (case r of Some (SecretRef (Some rr) k) \<Rightarrow> ref_name rr | _ \<Rightarrow> [])"

definition secretKey :: "SecretRef option \<Rightarrow> string" where
  "secretKey r = (case r of Some (SecretRef rr k) \<Rightarrow> k | None \<Rightarrow> [])"

fun resolveSecret ::
  "cluster \<Rightarrow> (string \<rightharpoonup> string) \<Rightarrow> string \<Rightarrow> isSecretValue_Type \<Rightarrow> render_error + string" where
  "resolveSecret getSecret readFile ns (SecretValue_SecretRef r) =
     (case getSecret ns (secretName r) of
        None \<Rightarrow> Inl (SecretNotFound (secretName r) (secretKey r))
      | Some data \<Rightarrow>
          (case data (secretKey r) of
             None \<Rightarrow> Inl (SecretNotFound (secretName r) (secretKey r))
           | Some lit \<Rightarrow> Inr lit))"
| "resolveSecret getSecret readFile ns (SecretValue_FilePath p) =
     (case readFile p of None \<Rightarrow> Inl (SecretSourceUnavailable p) | Some lit \<Rightarrow> Inr lit)"
| "resolveSecret getSecret readFile ns (SecretValue_PlainText lit) = Inr lit"

subsection \<open>Compatibility Validator (4.3)\<close>


fun splitDots :: "string \<Rightarrow> string list" where
  "splitDots [] = [[]]"
| "splitDots (c # cs) =
     (if c = CHR ''.'' then [] # splitDots cs
      else (case splitDots cs of [] \<Rightarrow> [[c]] | x # xs \<Rightarrow> (c # x) # xs))"

definition parseComponent :: "string \<Rightarrow> nat option" where
  "parseComponent s = (if s = [] then None else parse_digits 0 s)"

definition parseVersion :: "string \<Rightarrow> nat list option" where
  "parseVersion s = those (map parseComponent (splitDots s))"

fun version_le :: "nat list \<Rightarrow> nat list \<Rightarrow> bool" where
  "version_le [] ys = True"
| "version_le (x # xs) [] = (x = 0 \<and> version_le xs [])"
| "version_le (x # xs) (y # ys) = (x < y \<or> (x = y \<and> version_le xs ys))"

definition semverLeq :: "string \<Rightarrow> string \<Rightarrow> bool" where
  "semverLeq a b =
     (case parseVersion a of
        None \<Rightarrow> False
      | Some x \<Rightarrow> (case parseVersion b of None \<Rightarrow> False | Some y \<Rightarrow> version_le x y))"

text \<open>The order of the strings themselves, byte by byte, to set against \<open>semverLeq\<close>.\<close>

fun lexicalLeq :: "string \<Rightarrow> string \<Rightarrow> bool" where
  "lexicalLeq [] ys = True"
| "lexicalLeq (x # xs) [] = False"
| "lexicalLeq (x # xs) (y # ys) =
     ((of_char x :: nat) < of_char y \<or> (x = y \<and> lexicalLeq xs ys))"







subsection \<open>Step Orchestrator (4.5)\<close>

text \<open>
  Modelled from the spec: the Templating Engine of section 6 is a black box from an
  install source and a value map to resources or an error message. A resource has a
  kind, a namespace, a name, labels and a body.
\<close>

record Resource =
  kind :: string
  namespace :: string
  name :: string
  labels :: "string \<rightharpoonup> string"
  body :: string

type_synonym valueMap = "string \<rightharpoonup> string"

type_synonym engine = "InstallSource \<Rightarrow> valueMap \<Rightarrow> string + Resource list"

text \<open>
  Modelled from the spec: the Step Orchestrator (4.5) is not among the sources. It walks
  the steps in array order, calls the Templating Engine once per step, labels what the
  step produced with the step's name under the label key \<open>k\<close> (the specification does
  not name the key), and appends it to the batch. A step that fails to render ends the
  call with the step's name. The last component of the result counts the calls of the
  Templating Engine made so far.
\<close>

definition labelStep :: "string \<Rightarrow> string \<Rightarrow> Resource \<Rightarrow> Resource" where
  "labelStep k n r = r\<lparr>labels := (labels r)(k \<mapsto> n)\<rparr>"

fun renderSteps ::
  "engine \<Rightarrow> valueMap \<Rightarrow> string \<Rightarrow> Step list \<Rightarrow> Resource list \<Rightarrow> nat
     \<Rightarrow> (render_error + Resource list) \<times> nat" where
  "renderSteps eng vals k [] acc n = (Inr acc, n)"
| "renderSteps eng vals k (s # ss) acc n =
     (case step s of
        None \<Rightarrow> (Inl NoInstallSourceDefined, n)
      | Some src \<Rightarrow>
          (case eng src vals of
             Inl msg \<Rightarrow> (Inl (TemplatingFailed (step_name s) msg), Suc n)
           | Inr rs \<Rightarrow>
               renderSteps eng vals k ss (acc @ map (labelStep k (step_name s)) rs) (Suc n)))"

text \<open>
  Modelled from the spec: a single install source is one implicit unnamed step (4.5).
\<close>

definition stepsOf :: "InstallationSpec \<Rightarrow> Step list" where
  "stepsOf spec =
     (case spec of
        SingleSource src \<Rightarrow> [\<lparr>step_name = [], step = Some src\<rparr>]
      | InstallationSteps ss \<Rightarrow> ss)"

text \<open>
  Modelled from the spec: the whole of the Step Orchestrator (4.5). After all steps, the
  resources of the layer customizations come last, without a step label.
\<close>

definition orchestrate ::
  "engine \<Rightarrow> valueMap \<Rightarrow> string \<Rightarrow> InstallationSpec option \<Rightarrow> Resource list
     \<Rightarrow> (render_error + Resource list) \<times> nat" where
  "orchestrate eng vals k spec layerResources =
     (case spec of
        None \<Rightarrow> (Inl NoInstallSourceDefined, 0)
      | Some sp \<Rightarrow>
          (case renderSteps eng vals k (stepsOf sp) [] 0 of
             (Inl e, n) \<Rightarrow> (Inl e, n)
           | (Inr batch, n) \<Rightarrow> (Inr (batch @ layerResources), n)))"

text \<open>
  Modelled from the spec: what one step renders to, when it does, and the step's part of
  the batch, its resources labelled with its name (4.5). The result of the orchestrator
  is stated in these words.
\<close>

definition rendered :: "engine \<Rightarrow> valueMap \<Rightarrow> Step \<Rightarrow> Resource list option" where
  "rendered eng vals s =
     (case step s of
        None \<Rightarrow> None
      | Some src \<Rightarrow> (case eng src vals of Inl msg \<Rightarrow> None | Inr rs \<Rightarrow> Some rs))"

definition stepBatch :: "engine \<Rightarrow> valueMap \<Rightarrow> string \<Rightarrow> Step \<Rightarrow> Resource list" where
  "stepBatch eng vals k s =
     (case rendered eng vals s of
        None \<Rightarrow> []
      | Some rs \<Rightarrow> map (labelStep k (step_name s)) rs)"

subsection \<open>Layer Composer (4.4)\<close>

text \<open>
  Modelled from the spec: the check of a resource dependency (4.3) is not among the
  sources. The named secret must exist in the namespace with every required key.
\<close>

definition dependencyMet :: "cluster \<Rightarrow> string \<Rightarrow> ResourceDependency \<Rightarrow> bool" where
  "dependencyMet getSecret ns d =
     (case d of
        SecretDependency sec \<Rightarrow>
          (case getSecret ns (secret_name sec) of
             None \<Rightarrow> False
           | Some data \<Rightarrow> list_all (\<lambda>k. data k \<noteq> None) (keys sec)))"

definition dependencyName :: "ResourceDependency \<Rightarrow> string" where
  "dependencyName d = (case d of SecretDependency sec \<Rightarrow> secret_name sec)"

text \<open>
  Modelled from the spec: the choice of the caller (6) maps a layer id to an option id.
  The option chosen for a layer is the option of the layer with that id; a layer the map
  does not mention, or an id that is no option of the layer, selects nothing.
\<close>

definition chosenOption :: "(string \<rightharpoonup> string) \<Rightarrow> Layer \<Rightarrow> LayerOption option" where
  "chosenOption choices l =
     (case choices (layer_id l) of
        None \<Rightarrow> None
      | Some oid \<Rightarrow> find (\<lambda>opt. option_id opt = oid) (options l))"

text \<open>
  Modelled from the spec: the Layer Composer (4.4) is not among the sources. It walks the
  layers in the order the flavor declares them. A layer without a selection contributes
  nothing when it is optional and the error \<open>LayerSelectionRequired\<close> otherwise. The
  dependencies of a chosen option are checked first; unmet ones give \<open>MissingDependency\<close>
  errors and the option is left out. Errors are accumulated over all layers.
\<close>

fun composeLayers ::
  "cluster \<Rightarrow> string \<Rightarrow> (string \<rightharpoonup> string) \<Rightarrow> Layer list \<Rightarrow> render_error list
     \<Rightarrow> LayerOption list \<Rightarrow> render_error list \<times> LayerOption list" where
  "composeLayers getSecret ns choices [] errs opts = (errs, opts)"
| "composeLayers getSecret ns choices (l # ls) errs opts =
     (case chosenOption choices l of
        None \<Rightarrow>
          if optional l then composeLayers getSecret ns choices ls errs opts
          else composeLayers getSecret ns choices ls
                 (errs @ [LayerSelectionRequired (layer_id l)]) opts
      | Some opt \<Rightarrow>
          (case filter (\<lambda>d. \<not> dependencyMet getSecret ns d) (resource_dependencies opt) of
             [] \<Rightarrow> composeLayers getSecret ns choices ls errs (opts @ [opt])
           | d # ds \<Rightarrow>
               composeLayers getSecret ns choices ls
                 (errs @ map (\<lambda>d. MissingDependency (layer_id l) (option_id opt) (dependencyName d))
                    (d # ds))
                 opts))"

text \<open>
  Modelled from the spec: the merge of the values (4.4). The overrides of later layers
  win over those of earlier ones and over the base values; the overrides of the caller
  win over all. \<open>overridesOf\<close> reads the value overrides of an option.
\<close>

definition mergeValues ::
  "(LayerOption \<Rightarrow> valueMap) \<Rightarrow> valueMap \<Rightarrow> LayerOption list \<Rightarrow> valueMap \<Rightarrow> valueMap" where
  "mergeValues overridesOf base opts overrides =
     foldl (\<lambda>m opt. m ++ overridesOf opt) base opts ++ overrides"

subsection \<open>Rendering a flavor (4.6, 7)\<close>

text \<open>
  Modelled from the spec: the external collaborators of one render call (1, 6): the
  Templating Engine, the cluster, the reading of an option's value overrides and of the
  manifest fragments it contributes, and the label key for steps.
\<close>

record collaborators =
  templating :: engine
  cluster_secrets :: cluster
  valuesOf :: "LayerOption \<Rightarrow> valueMap"
  fragments :: "LayerOption \<Rightarrow> Resource list"
  stepLabel :: string

text \<open>
  Modelled from the spec: the part of the Plan Resolver (4.6) that renders the chosen
  flavor of a version, not among the sources. The layers are validated first; any layer
  error ends the call before the Templating Engine is called (7). Otherwise the Step
  Orchestrator runs on the merged values, and the fragments of the chosen options, in
  layer order, are the last batch. The second component counts the calls of the
  Templating Engine.
\<close>

definition renderFlavor ::
  "collaborators \<Rightarrow> string \<Rightarrow> InstallationSpec option \<Rightarrow> valueMap \<Rightarrow> Flavor
     \<Rightarrow> (string \<rightharpoonup> string) \<Rightarrow> valueMap \<Rightarrow> (render_error list + Resource list) \<times> nat" where
  "renderFlavor c ns spec base flavor choices overrides =
     (case composeLayers (cluster_secrets c) ns choices (customization_layers flavor) [] [] of
        (e # es, opts) \<Rightarrow> (Inl (e # es), 0)
      | ([], opts) \<Rightarrow>
          (case orchestrate (templating c) (mergeValues (valuesOf c) base opts overrides)
                  (stepLabel c) spec (concat (map (fragments c) opts)) of
             (Inl e, n) \<Rightarrow> (Inl [e], n)
           | (Inr batch, n) \<Rightarrow> (Inr batch, n)))"

section \<open>Examples\<close>

text \<open>
  The flavor of \<^verbatim>\<open>gloo_test.go\<close>, \<^verbatim>\<open>&v1.Flavor{Name: "custom-flavor"}\<close>, and the
  requirement, the layer and the steps of the scenarios in section 8 of the
  specification.
\<close>

definition custom_flavor :: Flavor where
  "custom_flavor =
     \<lparr>flavor_name = ''custom-flavor'', flavor_description = [], customization_layers = [],
      requirement_sets = [], flavor_parameters = []\<rparr>"



definition mtls_option :: "string \<Rightarrow> LayerOption" where
  "mtls_option oid =
     \<lparr>option_id = oid, option_display_name = [], option_description = [], helm_values = [],
      option_parameters = [], resource_dependencies = []\<rparr>"

definition mtls_layer :: "bool \<Rightarrow> Layer" where
  "mtls_layer opt =
     \<lparr>layer_id = ''mtls'', layer_display_name = ''Mutual TLS Settings'', layer_description = [],
      optional = opt, options = [mtls_option ''strict'', mtls_option ''permissive'']\<rparr>"

definition three_steps :: "Step list" where
  "three_steps =
     [\<lparr>step_name = ''pre-install'', step = Some (ManifestsArchive (TgzLocation ''pre.tgz''))\<rparr>,
      \<lparr>step_name = ''core'', step = Some (ManifestsArchive (TgzLocation ''core.tgz''))\<rparr>,
      \<lparr>step_name = ''post-install'', step = Some (ManifestsArchive (TgzLocation ''post.tgz''))\<rparr>]"

definition config_map :: "string \<Rightarrow> Resource" where
  "config_map n =
     \<lparr>kind = ''ConfigMap'', namespace = ''gloo-system'', name = n, labels = Map.empty, body = []\<rparr>"

text \<open>An engine for the examples: a manifest archive holds one resource, named by its URI.\<close>

definition archive_engine :: engine where
  "archive_engine src vals =
     (case src of
        ManifestsArchive (TgzLocation u) \<Rightarrow> Inr [config_map u]
      | _ \<Rightarrow> Inl ''no chart'')"

definition test_collaborators :: collaborators where
  "test_collaborators =
     \<lparr>templating = archive_engine, cluster_secrets = (\<lambda>ns n. None), valuesOf = (\<lambda>opt. Map.empty),
      fragments = (\<lambda>opt. [config_map (option_id opt)]), stepLabel = ''step''\<rparr>"

section \<open>Lemmas on the decimal digits\<close>




lemma upt_10: "[0 ..< 10] = [0, 1, 2, 3, 4, 5, 6, 7, 8, 9 :: nat]"
  by (simp add: upt_rec)
















text \<open>With 32 bits the conversion keeps the low 32 bits of the value.\<close>

lemma int_of_int64_32: "int_of_int64 32 x = sint (ucast x :: 32 word)"
proof -
  have "sint (ucast x :: 32 word) = signed_take_bit 31 (take_bit 32 (uint x))"
    by (simp add: sint_uint unsigned_ucast_eq)
  also have "\<dots> = signed_take_bit 31 (uint x)"
    by (simp add: signed_take_bit_take_bit)
  also have "\<dots> = signed_take_bit 31 (sint x)"
    by (simp add: sint_uint)
  finally show ?thesis
    by (simp add: int_of_int64_def)
qed

lemma ParamValueToString_int_32:
  "IntSize rt = 32 \<Longrightarrow>
   ParamValueToString rt (Some \<lparr>Type = Some (ParameterValue_IntValue i)\<rparr>)
     = Inr (Itoa (sint (ucast i :: 32 word)))"
  by (simp add: ParamValueToString_def GetType_def int_of_int64_32)

section \<open>Booleans, strings and dates\<close>


section \<open>Secrets\<close>

text \<open>
  C4. A secret value is rendered as the empty string: the call does not fail and gives
  no other value, whatever the secret is, also when the pointer to it is nil.
\<close>

theorem ParamValueToString_secret_empty:
  "ParamValueToString rt (Some \<lparr>Type = Some (ParameterValue_SecretValue s)\<rparr>) = Inr []"
  by (simp add: ParamValueToString_def GetType_def)

text \<open>
  C10. The rendering of a secret value does not depend on the secret: any two secret
  values, whatever reference, file path or plain text they carry, give the same result,
  the empty string.
\<close>

theorem ParamValueToString_secret_independent:
  "ParamValueToString rt (Some \<lparr>Type = Some (ParameterValue_SecretValue s1)\<rparr>)
     = ParamValueToString rt (Some \<lparr>Type = Some (ParameterValue_SecretValue s2)\<rparr>)
   \<and> ParamValueToString rt (Some \<lparr>Type = Some (ParameterValue_SecretValue s2)\<rparr>) = Inr ''''"
  by (simp add: ParamValueToString_def GetType_def)

text \<open>
  C3. A secret value is not resolved: the result is the empty string whatever the
  cluster, the files and the secret hold, so it differs from the literal the Secret
  Resolver gives whenever that literal is not empty. Nothing of the reference or of the
  secret is in the output.
\<close>

theorem ParamValueToString_secret_not_resolved:
  "ParamValueToString rt
      (Some \<lparr>Type = Some (ParameterValue_SecretValue (Some (SecretValue (Some st))))\<rparr>) = Inr []
   \<and> (resolveSecret getSecret readFile ns st = Inr lit \<and> lit \<noteq> [] \<longrightarrow>
        ParamValueToString rt
          (Some \<lparr>Type = Some (ParameterValue_SecretValue (Some (SecretValue (Some st))))\<rparr>)
        \<noteq> Inr lit)"
  by (auto simp: ParamValueToString_def GetType_def)

theorem ParamValueToString_secret_not_resolved_witness:
  "resolveSecret (\<lambda>ns n. None) Map.empty ''gloo-system'' (SecretValue_PlainText ''hunter2'')
     = Inr ''hunter2''
   \<and> ''hunter2'' \<noteq> []
   \<and> ParamValueToString linux_amd64
        (Some \<lparr>Type = Some (ParameterValue_SecretValue
           (Some (SecretValue (Some (SecretValue_PlainText ''hunter2'')))))\<rparr>) = Inr []
   \<and> ParamValueToString linux_amd64
        (Some \<lparr>Type = Some (ParameterValue_SecretValue
           (Some (SecretValue (Some (SecretValue_PlainText ''hunter2'')))))\<rparr>) \<noteq> Inr ''hunter2''"
  using ParamValueToString_secret_not_resolved
    [of linux_amd64 "SecretValue_PlainText ''hunter2''" "\<lambda>ns n. None" Map.empty
      "''gloo-system''" "''hunter2''"]
  by simp

text \<open>
  Read as a call of the Secret Resolver, the rendering of a secret fails on a plain-text
  secret: the resolver gives its text, the function the empty string.
\<close>

theorem ParamValueToString_secret_counterexample:
  "resolveSecret (\<lambda>ns n. None) Map.empty ''gloo-system'' (SecretValue_PlainText ''hunter2'')
     = Inr ''hunter2''
   \<and> ParamValueToString linux_amd64
        (Some \<lparr>Type = Some (ParameterValue_SecretValue
           (Some (SecretValue (Some (SecretValue_PlainText ''hunter2'')))))\<rparr>) = Inr []
   \<and> ParamValueToString linux_amd64
        (Some \<lparr>Type = Some (ParameterValue_SecretValue
           (Some (SecretValue (Some (SecretValue_PlainText ''hunter2'')))))\<rparr>) \<noteq> Inr ''hunter2''"
  by (simp add: ParamValueToString_def GetType_def)

section \<open>Integers and floats\<close>




section \<open>Determinism and totality\<close>



text \<open>
  A nil value and a value whose \<^verbatim>\<open>oneof\<close> is unset give the empty string, and every
  value but a date without its time gives a string.
\<close>

lemma ParamValueToString_unset:
  "ParamValueToString rt None = Inr []"
  "ParamValueToString rt (Some \<lparr>Type = None\<rparr>) = Inr []"
  by (simp_all add: ParamValueToString_def GetType_def)

lemma ParamValueToString_returns:
  assumes "GetType v \<noteq> Some (ParameterValue_DateValue None)"
  shows "\<exists>s. ParamValueToString rt v = Inr s"
  using assms
  by (auto simp: ParamValueToString_def split: option.splits isParameterValue_Type.splits)

text \<open>
  C9. The function is not total: on a date value whose time pointer is nil,
  \<^verbatim>\<open>t.DateValue.String()\<close> dereferences the nil pointer and the call panics.
\<close>

theorem ParamValueToString_nil_date_panics:
  "ParamValueToString rt (Some \<lparr>Type = Some (ParameterValue_DateValue None)\<rparr>)
     = Inl NilPointerDereference"
  by (simp add: ParamValueToString_def GetType_def)

section \<open>Applicability of a flavor\<close>

lemmas semver_eval =
  semverLeq_def parseVersion_def parseComponent_def digit_val_def digits_def upt_10

lemma version_le_refl: "version_le x x"
  by (induction x) auto

lemma version_le_total: "version_le x y \<or> version_le y x"
  by (induction x y rule: version_le.induct) auto

lemma version_le_Nil: "version_le x [] \<Longrightarrow> version_le x y"
  by (induction x y rule: version_le.induct) auto

lemma version_le_trans: "version_le x y \<Longrightarrow> version_le y z \<Longrightarrow> version_le x z"
proof (induction x y arbitrary: z rule: version_le.induct)
  case (1 ys)
  then show ?case by simp
next
  case (2 x xs)
  then show ?case by (simp add: version_le_Nil)
next
  case (3 x xs y ys)
  then show ?case by (cases z) auto
qed

text \<open>The order on versions is by number, where the order on strings is by byte.\<close>

lemma semverLeq_not_lexical:
  "semverLeq ''1.9.0'' ''1.10.0'' \<and> \<not> semverLeq ''1.10.0'' ''1.9.0''
   \<and> lexicalLeq ''1.10.0'' ''1.9.0'' \<and> \<not> lexicalLeq ''1.9.0'' ''1.10.0''"
  by (simp add: semver_eval)






section \<open>The order of the steps\<close>

lemma renderSteps_ok:
  "list_all (\<lambda>s. rendered eng vals s \<noteq> None) ss \<Longrightarrow>
   renderSteps eng vals k ss acc n
     = (Inr (acc @ concat (map (stepBatch eng vals k) ss)), n + length ss)"
proof (induction ss arbitrary: acc n)
  case Nil
  then show ?case by simp
next
  case (Cons s ss)
  then show ?case
    by (auto simp: rendered_def stepBatch_def split: option.splits sum.splits)
qed

lemma renderSteps_Inr:
  "renderSteps eng vals k ss acc n = (Inr batch, m) \<Longrightarrow>
   list_all (\<lambda>s. rendered eng vals s \<noteq> None) ss"
proof (induction ss arbitrary: acc n)
  case Nil
  then show ?case by simp
next
  case (Cons s ss)
  from Cons.prems obtain src rs where s: "step s = Some src" "eng src vals = Inr rs"
    and rest: "renderSteps eng vals k ss (acc @ map (labelStep k (step_name s)) rs) (Suc n)
                 = (Inr batch, m)"
    by (auto split: option.splits sum.splits)
  have "rendered eng vals s \<noteq> None"
    using s by (simp add: rendered_def)
  with Cons.IH [OF rest] show ?case by simp
qed

text \<open>The Templating Engine is called at most once per step.\<close>

lemma renderSteps_calls:
  "renderSteps eng vals k ss acc n = (r, m) \<Longrightarrow> n \<le> m \<and> m \<le> n + length ss"
proof (induction ss arbitrary: acc n)
  case Nil
  then show ?case by simp
next
  case (Cons s ss)
  then show ?case
    by (fastforce split: option.splits sum.splits)
qed

lemma orchestrate_steps_ok:
  assumes "list_all (\<lambda>s. rendered eng vals s \<noteq> None) steps"
  shows "orchestrate eng vals k (Some (InstallationSteps steps)) layerResources
           = (Inr (concat (map (stepBatch eng vals k) steps) @ layerResources), length steps)"
  using renderSteps_ok [OF assms, of k "[]" 0]
  by (simp add: orchestrate_def stepsOf_def)

lemma orchestrate_steps_Inr:
  assumes "fst (orchestrate eng vals k (Some (InstallationSteps steps)) layerResources) = Inr batch"
  shows "list_all (\<lambda>s. rendered eng vals s \<noteq> None) steps"
proof -
  obtain r n where r: "renderSteps eng vals k steps [] 0 = (r, n)"
    by (cases "renderSteps eng vals k steps [] 0") auto
  with assms obtain b where "r = Inr b"
    by (cases r) (auto simp: orchestrate_def stepsOf_def)
  with r show ?thesis
    using renderSteps_Inr by blast
qed

lemma stepBatch_labelled:
  "r \<in> set (stepBatch eng vals k s) \<Longrightarrow> labels r k = Some (step_name s)"
  by (auto simp: stepBatch_def labelStep_def split: option.splits)

text \<open>
  C7. For a version whose install specification is a list of steps, the orchestrator
  gives a batch exactly when every step renders, and the batch is then the labelled
  resources of the steps, step after step in the order of the list, followed by the
  resources of the layer customizations. Every resource of a step's part carries the
  name of that step under the step label.
\<close>

theorem orchestrate_steps_in_order:
  "(fst (orchestrate eng vals k (Some (InstallationSteps steps)) layerResources) = Inr batch
      \<longleftrightarrow> list_all (\<lambda>s. rendered eng vals s \<noteq> None) steps
          \<and> batch = concat (map (stepBatch eng vals k) steps) @ layerResources)
   \<and> (\<forall>s\<in>set steps. \<forall>r\<in>set (stepBatch eng vals k s). labels r k = Some (step_name s))"
proof -
  have "fst (orchestrate eng vals k (Some (InstallationSteps steps)) layerResources) = Inr batch
      \<longleftrightarrow> list_all (\<lambda>s. rendered eng vals s \<noteq> None) steps
          \<and> batch = concat (map (stepBatch eng vals k) steps) @ layerResources"
  proof (cases "list_all (\<lambda>s. rendered eng vals s \<noteq> None) steps")
    case True
    then show ?thesis
      by (auto simp: orchestrate_steps_ok)
  next
    case False
    then show ?thesis
      using orchestrate_steps_Inr by blast
  qed
  then show ?thesis
    by (simp add: stepBatch_labelled)
qed

theorem orchestrate_steps_in_order_witness:
  "list_all (\<lambda>s. rendered archive_engine Map.empty s \<noteq> None) three_steps
   \<and> fst (orchestrate archive_engine Map.empty ''step'' (Some (InstallationSteps three_steps))
           [config_map ''strict''])
     = Inr [(config_map ''pre.tgz'')\<lparr>labels := [''step'' \<mapsto> ''pre-install'']\<rparr>,
            (config_map ''core.tgz'')\<lparr>labels := [''step'' \<mapsto> ''core'']\<rparr>,
            (config_map ''post.tgz'')\<lparr>labels := [''step'' \<mapsto> ''post-install'']\<rparr>,
            config_map ''strict'']"
proof -
  have ok: "list_all (\<lambda>s. rendered archive_engine Map.empty s \<noteq> None) three_steps"
    by (simp add: three_steps_def rendered_def archive_engine_def)
  have b: "concat (map (stepBatch archive_engine Map.empty ''step'') three_steps)
      = [(config_map ''pre.tgz'')\<lparr>labels := [''step'' \<mapsto> ''pre-install'']\<rparr>,
         (config_map ''core.tgz'')\<lparr>labels := [''step'' \<mapsto> ''core'']\<rparr>,
         (config_map ''post.tgz'')\<lparr>labels := [''step'' \<mapsto> ''post-install'']\<rparr>]"
    by (simp add: three_steps_def stepBatch_def rendered_def archive_engine_def labelStep_def
        config_map_def)
  show ?thesis
    using ok orchestrate_steps_in_order
      [of archive_engine Map.empty "''step''" three_steps "[config_map ''strict'']"
        "concat (map (stepBatch archive_engine Map.empty ''step'') three_steps)
           @ [config_map ''strict'']"]
    by (simp add: b)
qed

section \<open>Layers without a selection\<close>

lemma composeLayers_errs_mono:
  "set errs \<subseteq> set (fst (composeLayers g ns ch ls errs opts))"
proof (induction ls arbitrary: errs opts)
  case Nil
  then show ?case by simp
next
  case (Cons l ls)
  show ?case
  proof (cases "chosenOption ch l")
    case None
    then show ?thesis
      using Cons.IH [of errs opts] Cons.IH [of "errs @ [LayerSelectionRequired (layer_id l)]" opts]
      by auto
  next
    case (Some opt)
    show ?thesis
    proof (cases "filter (\<lambda>d. \<not> dependencyMet g ns d) (resource_dependencies opt)")
      case Nil
      then show ?thesis
        using Some Cons.IH [of errs "opts @ [opt]"] by simp
    next
      case (Cons d ds)
      then show ?thesis
        using Some
          Cons.IH [of "errs @ map (\<lambda>d. MissingDependency (layer_id l) (option_id opt)
                                      (dependencyName d)) (d # ds)" opts]
        by auto
    qed
  qed
qed

lemma composeLayers_required:
  assumes "l \<in> set ls" and "\<not> optional l" and "chosenOption ch l = None"
  shows "LayerSelectionRequired (layer_id l) \<in> set (fst (composeLayers g ns ch ls errs opts))"
  using assms(1)
proof (induction ls arbitrary: errs opts)
  case Nil
  then show ?case by simp
next
  case (Cons x xs)
  show ?case
  proof (cases "x = l")
    case True
    have "LayerSelectionRequired (layer_id l) \<in> set (errs @ [LayerSelectionRequired (layer_id l)])"
      by simp
    then show ?thesis
      using True assms(2,3)
        composeLayers_errs_mono [of "errs @ [LayerSelectionRequired (layer_id l)]" g ns ch xs opts]
      by auto
  next
    case False
    then have "l \<in> set xs"
      using Cons.prems by simp
    then show ?thesis
      using Cons.IH by (auto split: option.splits list.splits)
  qed
qed

lemma composeLayers_append:
  "composeLayers g ns ch (xs @ ys) errs opts =
     (case composeLayers g ns ch xs errs opts of (e, os) \<Rightarrow> composeLayers g ns ch ys e os)"
  by (induction xs arbitrary: errs opts) (auto split: option.splits list.splits)

lemma composeLayers_skip:
  assumes "optional l" and "chosenOption ch l = None"
  shows "composeLayers g ns ch (xs @ l # ys) errs opts = composeLayers g ns ch (xs @ ys) errs opts"
  using assms by (simp add: composeLayers_append split: prod.splits)

lemma chosenOption_None: "choices (layer_id l) = None \<Longrightarrow> chosenOption choices l = None"
  by (simp add: chosenOption_def)

text \<open>
  C8. When the flavor has a layer that is not optional and the caller chose no option
  for it, rendering fails with errors among which is \<open>LayerSelectionRequired\<close> for that
  layer, and the Templating Engine has not been called. An optional layer for which the
  caller chose no option contributes nothing: the result is that of the flavor without
  the layer.
\<close>

theorem renderFlavor_layer_selection:
  "(l \<in> set (customization_layers flavor) \<and> \<not> optional l \<and> choices (layer_id l) = None \<longrightarrow>
      (\<exists>errs. renderFlavor c ns spec base flavor choices overrides = (Inl errs, 0)
         \<and> LayerSelectionRequired (layer_id l) \<in> set errs))
   \<and> (optional l \<and> choices (layer_id l) = None \<longrightarrow>
        renderFlavor c ns spec base (flavor\<lparr>customization_layers := xs @ l # ys\<rparr>) choices overrides
        = renderFlavor c ns spec base (flavor\<lparr>customization_layers := xs @ ys\<rparr>) choices overrides)"
proof (intro conjI impI)
  assume a: "l \<in> set (customization_layers flavor) \<and> \<not> optional l \<and> choices (layer_id l) = None"
  obtain errs opts where
    r: "composeLayers (cluster_secrets c) ns choices (customization_layers flavor) [] [] = (errs, opts)"
    by (cases "composeLayers (cluster_secrets c) ns choices (customization_layers flavor) [] []") auto
  have m: "LayerSelectionRequired (layer_id l) \<in> set errs"
    using a composeLayers_required
      [of l "customization_layers flavor" choices "cluster_secrets c" ns "[]" "[]"] r
    by (simp add: chosenOption_None)
  then obtain e es where "errs = e # es"
    by (cases errs) auto
  with r m show "\<exists>errs. renderFlavor c ns spec base flavor choices overrides = (Inl errs, 0)
      \<and> LayerSelectionRequired (layer_id l) \<in> set errs"
    by (simp add: renderFlavor_def)
next
  assume "optional l \<and> choices (layer_id l) = None"
  then show "renderFlavor c ns spec base (flavor\<lparr>customization_layers := xs @ l # ys\<rparr>) choices overrides
        = renderFlavor c ns spec base (flavor\<lparr>customization_layers := xs @ ys\<rparr>) choices overrides"
    by (simp add: renderFlavor_def composeLayers_skip chosenOption_None)
qed

theorem renderFlavor_layer_selection_witness:
  "mtls_layer False \<in> set (customization_layers (custom_flavor\<lparr>customization_layers := [mtls_layer False]\<rparr>))
   \<and> \<not> optional (mtls_layer False)
   \<and> Map.empty (layer_id (mtls_layer False)) = (None :: string option)
   \<and> renderFlavor test_collaborators ''gloo-system'' (Some (InstallationSteps three_steps)) Map.empty
        (custom_flavor\<lparr>customization_layers := [mtls_layer False]\<rparr>) Map.empty Map.empty
      = (Inl [LayerSelectionRequired ''mtls''], 0)
   \<and> optional (mtls_layer True)
   \<and> renderFlavor test_collaborators ''gloo-system'' (Some (InstallationSteps three_steps)) Map.empty
        (custom_flavor\<lparr>customization_layers := [] @ mtls_layer True # []\<rparr>) Map.empty Map.empty
      = renderFlavor test_collaborators ''gloo-system'' (Some (InstallationSteps three_steps)) Map.empty
        (custom_flavor\<lparr>customization_layers := [] @ []\<rparr>) Map.empty Map.empty"
proof -
  have e: "renderFlavor test_collaborators ''gloo-system'' (Some (InstallationSteps three_steps))
        Map.empty (custom_flavor\<lparr>customization_layers := [mtls_layer False]\<rparr>) Map.empty Map.empty
      = (Inl [LayerSelectionRequired ''mtls''], 0)"
    by (simp add: renderFlavor_def chosenOption_def mtls_layer_def)
  show ?thesis
    using renderFlavor_layer_selection
      [of "mtls_layer False" "custom_flavor\<lparr>customization_layers := [mtls_layer False]\<rparr>"
        Map.empty test_collaborators "''gloo-system''" "Some (InstallationSteps three_steps)"
        Map.empty Map.empty "[]" "[]"]
      renderFlavor_layer_selection
      [of "mtls_layer True" custom_flavor
        Map.empty test_collaborators "''gloo-system''" "Some (InstallationSteps three_steps)"
        Map.empty Map.empty "[]" "[]"]
    by (simp add: e) (simp add: mtls_layer_def)
qed

end
